theory Spec2Isabelle
  imports Complex_Main "HOL-Library.Sublist"
begin

section \<open>Python values, exceptions and strings\<close>

text \<open>
  The values that reach the code under study: the arguments of the \<open>Currency\<close> setters
  and the document returned by \<open>response.json()\<close>. A \<open>dict\<close> is an association list
  read with \<open>map_of\<close> (JSON object keys are strings). Python floats are modelled as
  reals: rounding, infinities and NaN are outside the model. Strings are HOL strings;
  whitespace and letter case are those of ASCII.
\<close>

datatype pyval =
    PNone
  | PBool bool
  | PInt int
  | PFloat real
  | PStr string
  | PList "pyval list"
  | PDict "(string \<times> pyval) list"

type_synonym pydict = "(string \<times> pyval) list"

text \<open>
  Exceptions are instances of subclasses of \<open>Exception\<close>: a class and a message
  (\<open>KeyboardInterrupt\<close> and \<open>SystemExit\<close>, which \<open>except Exception\<close> lets through,
  end the process and are not modelled).
  The messages of the source are Russian sentences; each is a constructor here,
  carrying the currency code the source formats into it.
  \<open>JSONDecodeError\<close> is the one raised by \<open>response.json()\<close>, a subclass of
  both \<open>ValueError\<close> and \<open>RequestException\<close>; \<open>ConnectionError\<close> is
  \<open>requests.exceptions.ConnectionError\<close>; \<open>RequestException\<close> stands for the
  remaining classes below it (\<open>HTTPError\<close>, \<open>Timeout\<close>, ...).
\<close>

datatype exc_class =
    KeyError
  | TypeError
  | ValueError
  | ZeroDivisionError
  | AttributeError
  | JSONDecodeError
  | ConnectionError
  | RequestException
  | OtherException

datatype message =
    Id_not_int | Id_not_positive
  | Num_code_not_int | Num_code_not_positive
  | Char_code_not_str | Char_code_empty | Char_code_not_3
  | Name_not_str | Name_empty
  | Value_not_number | Value_not_positive
  | Nominal_not_int | Nominal_not_positive
  | No_Valute_key
  | Currency_not_found string
  | Rate_wrong_type string
  | Missing_key string
  | Interpreter_text
  | Cause string

datatype exn = Exn exc_class message

fun exn_class :: "exn \<Rightarrow> exc_class" where
  "exn_class (Exn c m) = c"


text \<open>\<open>isinstance(v, (int, float))\<close>.\<close>

fun isinstance_int_float :: "pyval \<Rightarrow> bool" where
  "isinstance_int_float (PInt i) = True"
| "isinstance_int_float (PBool b) = True"
| "isinstance_int_float (PFloat r) = True"
| "isinstance_int_float v = False"


text \<open>\<open>float(v)\<close> for a value of class \<open>int\<close> or \<open>float\<close>.\<close>

fun float_of :: "pyval \<Rightarrow> real" where
  "float_of (PInt i) = of_int i"
| "float_of (PBool b) = (if b then 1 else 0)"
| "float_of (PFloat r) = r"
| "float_of v = 0"





section \<open>The Currency class (models/currency.py)\<close>

text \<open>
  A record value is a \<open>Currency\<close> object whose constructor has returned: the six
  private fields, none of them \<open>None\<close> any more. A value of class \<open>bool\<close> given for
  an integer field is kept by its integer value.
\<close>

record currency =
  c_id :: int
  c_num_code :: int
  c_char_code :: string
  c_name :: string
  c_value :: real
  c_nominal :: int





definition set_value :: "pyval \<Rightarrow> currency \<Rightarrow> exn + currency" where
  "set_value v c =
     (if \<not> isinstance_int_float v then Inl (Exn TypeError Value_not_number)
      else if float_of v \<le> 0 then Inl (Exn ValueError Value_not_positive)
      else Inr (c\<lparr>c_value := float_of v\<rparr>))"


text \<open>Sequencing of calls that may raise: the first exception ends the sequence.\<close>

definition and_then :: "exn + 'a \<Rightarrow> ('a \<Rightarrow> exn + 'b) \<Rightarrow> exn + 'b" where
  "and_then r f = (case r of Inl e \<Rightarrow> Inl e | Inr x \<Rightarrow> f x)"



text \<open>\<open>get_value_per_unit\<close>: \<open>self.value / self.nominal\<close>; division by zero raises.\<close>

definition get_value_per_unit :: "currency \<Rightarrow> exn + real" where
  "get_value_per_unit c =
     (if c_nominal c = 0 then Inl (Exn ZeroDivisionError Interpreter_text)
      else Inr (c_value c / of_int (c_nominal c)))"

section \<open>The logging decorator (utils/currencies_api.py)\<close>

text \<open>
  A log is the list of entries a call has appended to the sink, oldest first.
  \<open>Logged\<close> is a record made by the sink's \<open>info\<close> or \<open>error\<close> method,
  \<open>Written\<close> a line \<open>"INFO: ..."\<close> or \<open>"ERROR: ..."\<close> passed to its \<open>write\<close> method.
  The texts of the decorator are \<open>Start\<close> (function name and arguments), \<open>Finish\<close>
  (function name and result) and \<open>Failure\<close> (class and message of the exception);
  \<open>Own\<close> is a text the decorated function logs itself.
\<close>

datatype level = INFO | ERROR

datatype ('a, 'r, 'm) log_text =
    Start string 'a
  | Finish string 'r
  | Failure exn
  | Own 'm

datatype 't entry = Logged level 't | Written level 't

fun entry_level :: "'t entry \<Rightarrow> level" where
  "entry_level (Logged l t) = l"
| "entry_level (Written l t) = l"

fun entry_text :: "'t entry \<Rightarrow> 't" where
  "entry_text (Logged l t) = t"
| "entry_text (Written l t) = t"

text \<open>
  What the decorator asks of its \<open>handle\<close> with \<open>hasattr\<close>: which of the methods
  \<open>info\<close>, \<open>error\<close> and \<open>write\<close> it has. Calling a method it lacks raises
  \<open>AttributeError\<close>.
\<close>

record handle =
  has_info :: bool
  has_error :: bool
  has_write :: bool

definition emit_info :: "handle \<Rightarrow> 't \<Rightarrow> 't entry list \<times> (exn + unit)" where
  "emit_info h t =
     (if has_info h then ([Logged INFO t], Inr ())
      else if has_write h then ([Written INFO t], Inr ())
      else ([], Inl (Exn AttributeError Interpreter_text)))"

definition emit_error :: "handle \<Rightarrow> 't \<Rightarrow> 't entry list \<times> (exn + unit)" where
  "emit_error h t =
     (if has_error h then ([Logged ERROR t], Inr ())
      else if has_write h then ([Written ERROR t], Inr ())
      else ([], Inl (Exn AttributeError Interpreter_text)))"

text \<open>
  An operation returns what it appended to the log and either its result or the
  exception it raised.
\<close>

type_synonym ('a, 'r, 'm) operation =
  "'a \<Rightarrow> ('a, 'r, 'm) log_text entry list \<times> (exn + 'r)"

text \<open>The \<open>try\<close> block of \<open>inner\<close>: log the start, call, log the completion.\<close>

definition inner_try ::
  "handle \<Rightarrow> string \<Rightarrow> ('a, 'r, 'm) operation \<Rightarrow> ('a, 'r, 'm) operation" where
  "inner_try h name func args =
     (case emit_info h (Start name args) of
        (l0, Inl e) \<Rightarrow> (l0, Inl e)
      | (l0, Inr u) \<Rightarrow>
          (case func args of
             (lf, Inl e) \<Rightarrow> (l0 @ lf, Inl e)
           | (lf, Inr result) \<Rightarrow>
               (case emit_info h (Finish name result) of
                  (l1, Inl e) \<Rightarrow> (l0 @ lf @ l1, Inl e)
                | (l1, Inr u') \<Rightarrow> (l0 @ lf @ l1, Inr result))))"

text \<open>
  \<open>logger(func, handle=handle)\<close>, the function \<open>inner\<close> it returns. Without a handle the
  call goes straight through. With one, an exception of the \<open>try\<close> block is logged
  and raised again; an exception of the logging in the \<open>except\<close> block takes its place.
\<close>

definition logger ::
  "handle option \<Rightarrow> string \<Rightarrow> ('a, 'r, 'm) operation \<Rightarrow> ('a, 'r, 'm) operation" where
  "logger handle_opt name func args =
     (case handle_opt of
        None \<Rightarrow> func args
      | Some h \<Rightarrow>
          (case inner_try h name func args of
             (l, Inr result) \<Rightarrow> (l, Inr result)
           | (l, Inl e) \<Rightarrow>
               (case emit_error h (Failure e) of
                  (l', Inl e') \<Rightarrow> (l @ l', Inl e')
                | (l', Inr u) \<Rightarrow> (l @ l', Inl e))))"

section \<open>The feed client (utils/currencies_api.py)\<close>

text \<open>\<open>key in container\<close> for a string key; the test raises on a value that is no container.\<close>

fun py_contains :: "pyval \<Rightarrow> string \<Rightarrow> exn + bool" where
  "py_contains (PDict d) key = Inr (map_of d key \<noteq> None)"
| "py_contains (PList xs) key = Inr (PStr key \<in> set xs)"
| "py_contains (PStr s) key = Inr (sublist key s)"
| "py_contains v key = Inl (Exn TypeError Interpreter_text)"

text \<open>\<open>container[key]\<close> for a string key: only a dict can be indexed by a string.\<close>

fun py_getitem :: "pyval \<Rightarrow> string \<Rightarrow> exn + pyval" where
  "py_getitem (PDict d) key =
     (case map_of d key of
        None \<Rightarrow> Inl (Exn KeyError (Missing_key key))
      | Some v \<Rightarrow> Inr v)"
| "py_getitem v key = Inl (Exn TypeError Interpreter_text)"

text \<open>\<open>d[key] = v\<close> on a dict: a present key keeps its place, a new one goes last.\<close>

fun dict_set :: "pydict \<Rightarrow> string \<Rightarrow> pyval \<Rightarrow> pydict" where
  "dict_set [] key v = [(key, v)]"
| "dict_set ((k, w) # d) key v =
     (if k = key then (key, v) # d else (k, w) # dict_set d key v)"

text \<open>The texts \<open>get_currencies\<close> logs itself.\<close>

datatype feed_text =
    Begin "string list"
  | Rate_not_numeric string
  | Not_in_api string
  | Valute_absent
  | Success pydict
  | Bad_json exn
  | Network_down exn
  | Request_failed exn
  | Crashed exn

type_synonym feed_log = "(string list, pydict, feed_text) log_text entry list"

text \<open>
  The loop over \<open>currency_codes\<close>, with the dict \<open>currencies\<close> built so far. An error
  is logged through the default handle, a \<open>logging.Logger\<close>, before it is raised.
\<close>

fun fetch_codes :: "pyval \<Rightarrow> string list \<Rightarrow> pydict \<Rightarrow> feed_log \<times> (exn + pydict)" where
  "fetch_codes data [] currencies = ([], Inr currencies)"
| "fetch_codes data (code # codes) currencies =
     (case and_then (py_getitem data ''Valute'') (\<lambda>v. py_contains v code) of
        Inl e \<Rightarrow> ([], Inl e)
      | Inr True \<Rightarrow>
          (case and_then (py_getitem data ''Valute'') (\<lambda>v.
                and_then (py_getitem v code) (\<lambda>w. py_getitem w ''Value'')) of
             Inl e \<Rightarrow> ([], Inl e)
           | Inr x \<Rightarrow>
               if \<not> isinstance_int_float x
               then ([Logged ERROR (Own (Rate_not_numeric code))],
                     Inl (Exn TypeError (Rate_wrong_type code)))
               else fetch_codes data codes (dict_set currencies code x))
      | Inr False \<Rightarrow>
          ([Logged ERROR (Own (Not_in_api code))],
           Inl (Exn KeyError (Currency_not_found code))))"

text \<open>The \<open>except\<close> clauses, in the order of the source: which text is logged for \<open>e\<close>.\<close>

definition except_text :: "exn \<Rightarrow> feed_text" where
  "except_text e =
     (if exn_class e = ValueError \<or> exn_class e = JSONDecodeError then Bad_json e
      else if exn_class e = ConnectionError then Network_down e
      else if exn_class e = RequestException then Request_failed e
      else Crashed e)"

text \<open>
  The body of \<open>get_currencies\<close>. The second argument is the outcome of its three network
  lines (\<open>requests.get\<close>, \<open>raise_for_status\<close>, \<open>response.json\<close>): the exception
  raised there, or the parsed document. \<open>reading_log\<close> prints the log file and changes
  nothing.
\<close>

definition get_currencies_body ::
  "string list \<Rightarrow> exn + pyval \<Rightarrow> feed_log \<times> (exn + pydict)" where
  "get_currencies_body currency_codes fetched =
     (case
        (case fetched of
           Inl e \<Rightarrow> ([], Inl e)
         | Inr data \<Rightarrow>
             (case py_contains data ''Valute'' of
                Inl e \<Rightarrow> ([], Inl e)
              | Inr True \<Rightarrow>
                  (case fetch_codes data currency_codes [] of
                     (l, Inl e) \<Rightarrow> (l, Inl e)
                   | (l, Inr currencies) \<Rightarrow>
                       (l @ [Logged INFO (Own (Success currencies))], Inr currencies))
              | Inr False \<Rightarrow>
                  ([Logged ERROR (Own Valute_absent)], Inl (Exn KeyError No_Valute_key))))
      of
        (l, Inr currencies) \<Rightarrow>
          (Logged INFO (Own (Begin currency_codes)) # l, Inr currencies)
      | (l, Inl e) \<Rightarrow>
          (Logged INFO (Own (Begin currency_codes)) # l @ [Logged ERROR (Own (except_text e))],
           Inl e))"

text \<open>\<open>file_log\<close>, a \<open>logging.Logger\<close>: it has \<open>info\<close> and \<open>error\<close> and no \<open>write\<close>.\<close>

definition file_log :: handle where
  "file_log = \<lparr>has_info = True, has_error = True, has_write = False\<rparr>"

text \<open>\<open>get_currencies\<close> as the module exports it, decorated with \<open>@logger(handle=file_log)\<close>.\<close>

definition get_currencies ::
  "string list \<Rightarrow> exn + pyval \<Rightarrow> feed_log \<times> (exn + pydict)" where
  "get_currencies currency_codes fetched =
     logger (Some file_log) ''get_currencies''
       (\<lambda>codes. get_currencies_body codes fetched) currency_codes"

section \<open>The currencies page (myapp.py)\<close>

text \<open>
  One dict of the list \<open>currencies\<close> handed to the template, and the template context:
  the rows, and whether \<open>update_time\<close> carries the mark of static data, which the
  \<open>except\<close> branch appends. The page is rendered from the context by the template
  engine, which is not modelled.
\<close>

record row =
  r_id :: int
  r_num_code :: int
  r_char_code :: string
  r_name :: string
  r_value :: real
  r_nominal :: int
  r_value_per_unit :: real
  r_change :: real

record page_context =
  currencies :: "row list"
  static_data :: bool

text \<open>The dict literal of the source, once \<open>get_value_per_unit\<close> has returned \<open>u\<close>.\<close>

definition row_dict :: "currency \<Rightarrow> real \<Rightarrow> real \<Rightarrow> row" where
  "row_dict c u change =
     \<lparr>r_id = c_id c, r_num_code = c_num_code c, r_char_code = c_char_code c,
      r_name = c_name c, r_value = c_value c, r_nominal = c_nominal c,
      r_value_per_unit = u, r_change = change\<rparr>"

text \<open>Building the dict: \<open>get_value_per_unit\<close> is the only call in it that can raise.\<close>

definition row_of :: "currency \<Rightarrow> real \<Rightarrow> exn + row" where
  "row_of c change = and_then (get_value_per_unit c) (\<lambda>u. Inr (row_dict c u change))"

text \<open>
  The body of the first loop for one object: the row or the exception, and the object
  afterwards. \<open>old_value\<close> is falsy when it is zero.
\<close>

definition update_one :: "pydict \<Rightarrow> currency \<Rightarrow> (exn + row) \<times> currency" where
  "update_one api_currencies c =
     (case map_of api_currencies (c_char_code c) of
        Some v \<Rightarrow>
          (case set_value v c of
             Inl e \<Rightarrow> (Inl e, c)
           | Inr c' \<Rightarrow>
               (row_of c' (if c_value c \<noteq> 0 then c_value c' - c_value c else 0), c'))
      | None \<Rightarrow> (row_of c 0, c))"

text \<open>
  The first loop over \<open>self._currencies\<close>, which are updated in place: the objects
  before the one that raises stay updated. The objects of the list are distinct
  objects, as in the class attribute of the source.
\<close>

fun update_all :: "pydict \<Rightarrow> currency list \<Rightarrow> (exn + row list) \<times> currency list" where
  "update_all api_currencies [] = (Inr [], [])"
| "update_all api_currencies (c # cs) =
     (case update_one api_currencies c of
        (Inl e, c') \<Rightarrow> (Inl e, c' # cs)
      | (Inr r, c') \<Rightarrow>
          (case update_all api_currencies cs of
             (Inl e, cs') \<Rightarrow> (Inl e, c' # cs')
           | (Inr rs, cs') \<Rightarrow> (Inr (r # rs), c' # cs')))"

text \<open>The loop of the \<open>except\<close> branch.\<close>

fun static_rows :: "currency list \<Rightarrow> exn + row list" where
  "static_rows [] = Inr []"
| "static_rows (c # cs) =
     and_then (row_of c 0) (\<lambda>r. and_then (static_rows cs) (\<lambda>rs. Inr (r # rs)))"

text \<open>The \<open>except\<close> branch; an exception raised in it leaves the method.\<close>

definition static_page :: "currency list \<Rightarrow> (exn + page_context) \<times> currency list" where
  "static_page cs =
     (case static_rows cs of
        Inl e \<Rightarrow> (Inl e, cs)
      | Inr rs \<Rightarrow> (Inr \<lparr>currencies = rs, static_data = True\<rparr>, cs))"

text \<open>
  \<open>_handle_currencies\<close>. The first argument is the function the name \<open>get_currencies\<close>
  is bound to in the module; the second is \<open>self._currencies\<close>. The result is the
  context rendered, or the exception that leaves the method, and \<open>self._currencies\<close>
  afterwards.
\<close>

definition handle_currencies ::
  "(string list \<Rightarrow> exn + pydict) \<Rightarrow> currency list \<Rightarrow> (exn + page_context) \<times> currency list" where
  "handle_currencies fetch cs =
     (case fetch (map c_char_code cs) of
        Inl e \<Rightarrow> static_page cs
      | Inr api_currencies \<Rightarrow>
          (case update_all api_currencies cs of
             (Inl e, cs') \<Rightarrow> static_page cs'
           | (Inr rs, cs') \<Rightarrow> (Inr \<lparr>currencies = rs, static_data = False\<rparr>, cs')))"





section \<open>Sample data\<close>

text \<open>
  Three of the objects of the class attribute \<open>_currencies\<close> (their names in English),
  a document of the shape the feed returns, and the exception of a request that
  timed out.
\<close>

definition usd :: currency where
  "usd = \<lparr>c_id = 1, c_num_code = 840, c_char_code = ''USD'', c_name = ''US dollar'',
          c_value = 181 / 2, c_nominal = 1\<rparr>"

definition jpy :: currency where
  "jpy = \<lparr>c_id = 4, c_num_code = 392, c_char_code = ''JPY'', c_name = ''Japanese yen'',
          c_value = 3 / 5, c_nominal = 100\<rparr>"


definition sample_valute :: pydict where
  "sample_valute =
     [(''USD'', PDict [(''Nominal'', PInt 1), (''Value'', PFloat (921 / 10))]),
      (''EUR'', PDict [(''Nominal'', PInt 1), (''Value'', PInt 99)]),
      (''XDR'', PDict [(''Nominal'', PInt 1), (''Value'', PStr ''n/a'')])]"

definition sample_feed :: pydict where
  "sample_feed = [(''Date'', PStr ''2025-01-01''), (''Valute'', PDict sample_valute)]"

definition timed_out :: exn where
  "timed_out = Exn ConnectionError (Cause ''timed out'')"

section \<open>The decorator logs and passes on\<close>

lemma emit_info_ok:
  "has_info h \<or> has_write h \<Longrightarrow>
   \<exists>s. emit_info h t = ([s], Inr ()) \<and> entry_level s = INFO \<and> entry_text s = t"
  by (auto simp: emit_info_def)

lemma emit_error_ok:
  "has_error h \<or> has_write h \<Longrightarrow>
   \<exists>s. emit_error h t = ([s], Inr ()) \<and> entry_level s = ERROR \<and> entry_text s = t"
  by (auto simp: emit_error_def)

lemma logger_returns:
  assumes "emit_info h (Start name args) = ([s], Inr ())"
    and "func args = (lf, Inr result)"
    and "emit_info h (Finish name result) = ([f], Inr ())"
  shows "logger (Some h) name func args = (s # lf @ [f], Inr result)"
  using assms by (simp add: logger_def inner_try_def)

lemma logger_raises:
  assumes "emit_info h (Start name args) = ([s], Inr ())"
    and "func args = (lf, Inl e)"
    and "emit_error h (Failure e) = ([f], Inr ())"
  shows "logger (Some h) name func args = (s # lf @ [f], Inl e)"
  using assms by (simp add: logger_def inner_try_def)

text \<open>
  Claim C5. Let the sink accept levelled messages: it has \<open>info\<close> or \<open>write\<close>, and
  \<open>error\<close> or \<open>write\<close>. If the operation returns \<open>result\<close> having logged \<open>lf\<close>, the
  decorated operation returns the same \<open>result\<close>, and its log is \<open>lf\<close> between exactly
  one INFO entry for the start and one INFO entry for the completion. If the operation
  raises \<open>e\<close>, the decorated operation raises the same \<open>e\<close>, and its log is \<open>lf\<close> between
  one INFO entry for the start and one ERROR entry for the failure.
\<close>

theorem logger_instruments:
  fixes func :: "('a, 'r, 'm) operation"
  assumes sink: "(has_info h \<or> has_write h) \<and> (has_error h \<or> has_write h)"
  shows "(func args = (lf, Inr result) \<longrightarrow>
           (\<exists>s f. logger (Some h) name func args = (s # lf @ [f], Inr result)
              \<and> entry_level s = INFO \<and> entry_text s = Start name args
              \<and> entry_level f = INFO \<and> entry_text f = Finish name result))
       \<and> (func args = (lf, Inl e) \<longrightarrow>
           (\<exists>s f. logger (Some h) name func args = (s # lf @ [f], Inl e)
              \<and> entry_level s = INFO \<and> entry_text s = Start name args
              \<and> entry_level f = ERROR \<and> entry_text f = Failure e))"
proof -
  let ?start = "Start name args :: ('a, 'r, 'm) log_text"
  let ?finish = "Finish name result :: ('a, 'r, 'm) log_text"
  let ?failure = "Failure e :: ('a, 'r, 'm) log_text"
  from sink have "has_info h \<or> has_write h" and "has_error h \<or> has_write h"
    by simp_all
  then obtain s f g where
    s: "emit_info h ?start = ([s], Inr ())" "entry_level s = INFO" "entry_text s = ?start" and
    f: "emit_info h ?finish = ([f], Inr ())" "entry_level f = INFO" "entry_text f = ?finish" and
    g: "emit_error h ?failure = ([g], Inr ())" "entry_level g = ERROR" "entry_text g = ?failure"
    using emit_info_ok[of h ?start] emit_info_ok[of h ?finish] emit_error_ok[of h ?failure]
    by auto
  show ?thesis
  proof (intro conjI impI)
    assume "func args = (lf, Inr result)"
    with s(1) f(1) have "logger (Some h) name func args = (s # lf @ [f], Inr result)"
      by (simp add: logger_returns)
    with s f show "\<exists>s f. logger (Some h) name func args = (s # lf @ [f], Inr result)
              \<and> entry_level s = INFO \<and> entry_text s = Start name args
              \<and> entry_level f = INFO \<and> entry_text f = Finish name result"
      by (intro exI[of _ s] exI[of _ f]) simp
  next
    assume "func args = (lf, Inl e)"
    with s(1) g(1) have "logger (Some h) name func args = (s # lf @ [g], Inl e)"
      by (simp add: logger_raises)
    with s g show "\<exists>s f. logger (Some h) name func args = (s # lf @ [f], Inl e)
              \<and> entry_level s = INFO \<and> entry_text s = Start name args
              \<and> entry_level f = ERROR \<and> entry_text f = Failure e"
      by (intro exI[of _ s] exI[of _ g]) simp
  qed
qed

text \<open>A logger as sink, an operation that logs one entry and returns, and one that raises.\<close>

theorem logger_instruments_witness:
  "((has_info file_log \<or> has_write file_log) \<and> (has_error file_log \<or> has_write file_log))
   \<and> (\<exists>s f. logger (Some file_log) ''op''
          (\<lambda>n::int. ([Logged INFO (Own ''working'')], Inr (n + 1))) 1
            = (s # [Logged INFO (Own ''working'')] @ [f], Inr (2::int))
        \<and> entry_level s = INFO \<and> entry_text s = Start ''op'' 1
        \<and> entry_level f = INFO \<and> entry_text f = Finish ''op'' 2)
   \<and> (\<exists>s f. logger (Some file_log) ''op''
          (\<lambda>n::int. ([], Inl (Exn KeyError No_Valute_key) :: exn + int)) 1
            = (s # [] @ [f], Inl (Exn KeyError No_Valute_key))
        \<and> entry_level s = INFO \<and> entry_text s = (Start ''op'' 1 :: (int, int, string) log_text)
        \<and> entry_level f = ERROR \<and> entry_text f = Failure (Exn KeyError No_Valute_key))"
proof -
  have sink: "(has_info file_log \<or> has_write file_log) \<and> (has_error file_log \<or> has_write file_log)"
    by (simp add: file_log_def)
  have r: "(\<lambda>n::int. ([Logged INFO (Own ''working'') :: (int, int, string) log_text entry], Inr (n + 1) :: exn + int)) 1
      = ([Logged INFO (Own ''working'')], Inr 2)"
    by simp
  have x: "(\<lambda>n::int. ([] :: (int, int, string) log_text entry list, Inl (Exn KeyError No_Valute_key) :: exn + int)) 1
      = ([], Inl (Exn KeyError No_Valute_key))"
    by simp
  from logger_instruments[OF sink, where func = "\<lambda>n::int. ([Logged INFO (Own ''working'') :: (int, int, string) log_text entry], Inr (n + 1) :: exn + int)"
      and args = 1 and lf = "[Logged INFO (Own ''working'')]" and result = 2 and name = "''op''"] r
  have a: "\<exists>s f. logger (Some file_log) ''op''
          (\<lambda>n::int. ([Logged INFO (Own ''working'') :: (int, int, string) log_text entry], Inr (n + 1))) 1
            = (s # [Logged INFO (Own ''working'')] @ [f], Inr (2::int))
        \<and> entry_level s = INFO \<and> entry_text s = Start ''op'' 1
        \<and> entry_level f = INFO \<and> entry_text f = Finish ''op'' 2"
    by blast
  from logger_instruments[OF sink, where func = "\<lambda>n::int. ([] :: (int, int, string) log_text entry list, Inl (Exn KeyError No_Valute_key) :: exn + int)"
      and args = 1 and lf = "[]" and e = "Exn KeyError No_Valute_key" and name = "''op''"] x
  have b: "\<exists>s f. logger (Some file_log) ''op''
          (\<lambda>n::int. ([], Inl (Exn KeyError No_Valute_key) :: exn + int)) 1
            = (s # [] @ [f], Inl (Exn KeyError No_Valute_key))
        \<and> entry_level s = INFO \<and> entry_text s = (Start ''op'' 1 :: (int, int, string) log_text)
        \<and> entry_level f = ERROR \<and> entry_text f = Failure (Exn KeyError No_Valute_key)"
    by blast
  from sink a b show ?thesis by blast
qed

section \<open>The Currency class: what the constructor and the setters accept\<close>

lemma and_then_Inr [simp]: "and_then (Inr x) f = f x"
  by (simp add: and_then_def)

lemma and_then_Inl [simp]: "and_then (Inl e) f = Inl e"
  by (simp add: and_then_def)















section \<open>The feed client: what it returns and what it raises\<close>

lemma get_currencies_unfold:
  "get_currencies codes fetched =
     (case get_currencies_body codes fetched of
        (l, Inr r) \<Rightarrow>
          (Logged INFO (Start ''get_currencies'' codes) # l
             @ [Logged INFO (Finish ''get_currencies'' r)], Inr r)
      | (l, Inl e) \<Rightarrow>
          (Logged INFO (Start ''get_currencies'' codes) # l @ [Logged ERROR (Failure e)], Inl e))"
  by (simp add: get_currencies_def logger_def inner_try_def emit_info_def emit_error_def
      file_log_def split: prod.splits sum.splits)



lemma map_of_dict_set: "map_of (dict_set d k v) = (map_of d)(k \<mapsto> v)"
  by (induction d) auto

lemma keys_dict_set: "fst ` set (dict_set d k v) = insert k (fst ` set d)"
  by (simp add: dom_map_of_conv_image_fst[symmetric] map_of_dict_set)

lemma distinct_dict_set: "distinct (map fst d) \<Longrightarrow> distinct (map fst (dict_set d k v))"
  by (induction d) (auto simp: keys_dict_set)

lemma fetch_codes_step_good:
  assumes "map_of d ''Valute'' = Some (PDict v)" and "map_of v code = Some (PDict w)"
    and "map_of w ''Value'' = Some x" and "isinstance_int_float x"
  shows "fetch_codes (PDict d) (code # codes) cur = fetch_codes (PDict d) codes (dict_set cur code x)"
  using assms by simp



lemma fetch_codes_good:
  assumes valute: "map_of d ''Valute'' = Some (PDict v)"
    and good: "\<forall>code\<in>set codes. \<exists>w x. map_of v code = Some (PDict w)
                 \<and> map_of w ''Value'' = Some x \<and> isinstance_int_float x"
  shows "\<exists>api. fetch_codes (PDict d) codes cur = ([], Inr api)
     \<and> fst ` set api = set codes \<union> fst ` set cur
     \<and> (distinct (map fst cur) \<longrightarrow> distinct (map fst api))
     \<and> (\<forall>k. k \<notin> set codes \<longrightarrow> map_of api k = map_of cur k)
     \<and> (\<forall>code\<in>set codes. \<forall>w x. map_of v code = Some (PDict w) \<longrightarrow>
            map_of w ''Value'' = Some x \<longrightarrow> map_of api code = Some x)"
  using good
proof (induction codes arbitrary: cur)
  case Nil
  show ?case by simp
next
  case (Cons code codes)
  then obtain w x where wx: "map_of v code = Some (PDict w)" "map_of w ''Value'' = Some x"
    "isinstance_int_float x" by auto
  from Cons.prems have "\<forall>code\<in>set codes. \<exists>w x. map_of v code = Some (PDict w)
                 \<and> map_of w ''Value'' = Some x \<and> isinstance_int_float x" by simp
  from Cons.IH[OF this, of "dict_set cur code x"] obtain api where
    api: "fetch_codes (PDict d) codes (dict_set cur code x) = ([], Inr api)"
      "fst ` set api = set codes \<union> fst ` set (dict_set cur code x)"
      "distinct (map fst (dict_set cur code x)) \<longrightarrow> distinct (map fst api)"
      "\<forall>k. k \<notin> set codes \<longrightarrow> map_of api k = map_of (dict_set cur code x) k"
      "\<forall>code\<in>set codes. \<forall>w x. map_of v code = Some (PDict w) \<longrightarrow>
            map_of w ''Value'' = Some x \<longrightarrow> map_of api code = Some x"
    by blast
  have 1: "fetch_codes (PDict d) (code # codes) cur = ([], Inr api)"
    using fetch_codes_step_good[OF valute wx] api(1) by simp
  have 2: "fst ` set api = set (code # codes) \<union> fst ` set cur"
    using api(2) by (auto simp: keys_dict_set)
  have 3: "distinct (map fst cur) \<longrightarrow> distinct (map fst api)"
    using api(3) by (simp add: distinct_dict_set)
  have 4: "\<forall>k. k \<notin> set (code # codes) \<longrightarrow> map_of api k = map_of cur k"
    using api(4) by (simp add: map_of_dict_set)
  have 5: "\<forall>c\<in>set (code # codes). \<forall>w x. map_of v c = Some (PDict w) \<longrightarrow>
            map_of w ''Value'' = Some x \<longrightarrow> map_of api c = Some x"
  proof (intro ballI allI impI)
    fix c w' x'
    assume c: "c \<in> set (code # codes)" and w': "map_of v c = Some (PDict w')"
      and x': "map_of w' ''Value'' = Some x'"
    show "map_of api c = Some x'"
    proof (cases "c \<in> set codes")
      case True
      with api(5) w' x' show ?thesis by blast
    next
      case False
      with c have "c = code" by simp
      with False api(4) wx w' x' show ?thesis by (simp add: map_of_dict_set)
    qed
  qed
  from 1 2 3 4 5 show ?case by blast
qed





lemma sample_feed_valute: "map_of sample_feed ''Valute'' = Some (PDict sample_valute)"
  by (simp add: sample_feed_def)

text \<open>
  Claim C3. Let the document be an object whose \<open>"Valute"\<close> is an object in which every
  requested code has an entry with a numeric \<open>"Value"\<close> (numeric as \<open>isinstance\<close>
  has it: \<open>int\<close>, \<open>float\<close> or \<open>bool\<close>). Then \<open>get_currencies\<close> returns a dict whose
  keys are exactly the requested codes, each once, and which maps every requested code
  to its \<open>"Value"\<close>.
\<close>

theorem get_currencies_returns_requested:
  assumes valute: "map_of d ''Valute'' = Some (PDict v)"
    and good: "\<forall>code\<in>set codes. \<exists>w x. map_of v code = Some (PDict w)
                 \<and> map_of w ''Value'' = Some x \<and> isinstance_int_float x"
  shows "\<exists>l api. get_currencies codes (Inr (PDict d)) = (l, Inr api)
     \<and> fst ` set api = set codes \<and> distinct (map fst api)
     \<and> (\<forall>code\<in>set codes. \<forall>w x. map_of v code = Some (PDict w) \<longrightarrow>
            map_of w ''Value'' = Some x \<longrightarrow> map_of api code = Some x)"
proof -
  from fetch_codes_good[OF valute good, of "[]"] obtain api where
    api: "fetch_codes (PDict d) codes [] = ([], Inr api)" "fst ` set api = set codes"
      "distinct (map fst api)"
      "\<forall>code\<in>set codes. \<forall>w x. map_of v code = Some (PDict w) \<longrightarrow>
            map_of w ''Value'' = Some x \<longrightarrow> map_of api code = Some x"
    by auto
  have "get_currencies_body codes (Inr (PDict d)) =
      ([Logged INFO (Own (Begin codes)), Logged INFO (Own (Success api))], Inr api)"
    by (simp add: get_currencies_body_def valute api(1))
  then have "\<exists>l. get_currencies codes (Inr (PDict d)) = (l, Inr api)"
    by (simp add: get_currencies_unfold)
  with api show ?thesis by blast
qed

text \<open>The sample feed, asked for the dollar and the euro.\<close>

theorem get_currencies_returns_requested_witness:
  "\<exists>l api. get_currencies [''USD'', ''EUR''] (Inr (PDict sample_feed)) = (l, Inr api)
     \<and> fst ` set api = {''USD'', ''EUR''} \<and> distinct (map fst api)
     \<and> map_of api ''USD'' = Some (PFloat (921 / 10)) \<and> map_of api ''EUR'' = Some (PInt 99)"
proof -
  have good: "\<forall>code\<in>set [''USD'', ''EUR'']. \<exists>w x. map_of sample_valute code = Some (PDict w)
                 \<and> map_of w ''Value'' = Some x \<and> isinstance_int_float x"
    by (simp add: sample_valute_def)
  from get_currencies_returns_requested[OF sample_feed_valute good] obtain l api where
    r: "get_currencies [''USD'', ''EUR''] (Inr (PDict sample_feed)) = (l, Inr api)"
      "fst ` set api = set [''USD'', ''EUR'']" "distinct (map fst api)"
    and each: "\<forall>code\<in>set [''USD'', ''EUR'']. \<forall>w x. map_of sample_valute code = Some (PDict w) \<longrightarrow>
            map_of w ''Value'' = Some x \<longrightarrow> map_of api code = Some x"
    by blast
  from each have "map_of api ''USD'' = Some (PFloat (921 / 10))" "map_of api ''EUR'' = Some (PInt 99)"
    by (simp_all add: sample_valute_def)
  with r show ?thesis
    by (intro exI[of _ l] exI[of _ api]) auto
qed





section \<open>The currencies page: the two loops\<close>




lemma static_page_state: "snd (static_page cs) = cs"
  by (simp add: static_page_def split: sum.splits)

lemma update_one_state:
  "snd (update_one api c) = c \<or>
   (\<exists>v. map_of api (c_char_code c) = Some v \<and> isinstance_int_float v \<and> 0 < float_of v
        \<and> snd (update_one api c) = c\<lparr>c_value := float_of v\<rparr>)"
  by (auto simp: update_one_def set_value_def split: option.splits sum.splits if_splits)

lemma update_one_frame:
  "c_id (snd (update_one api c)) = c_id c \<and> c_num_code (snd (update_one api c)) = c_num_code c
   \<and> c_char_code (snd (update_one api c)) = c_char_code c \<and> c_name (snd (update_one api c)) = c_name c
   \<and> c_nominal (snd (update_one api c)) = c_nominal c"
  using update_one_state[of api c] by auto





lemma update_all_rel:
  assumes step: "\<And>c. R c (snd (update_one api c))" and refl: "\<And>c. R c c"
  shows "list_all2 R cs (snd (update_all api cs))"
proof (induction cs)
  case Nil
  show ?case by simp
next
  case (Cons c cs)
  have "list_all2 R cs cs" using refl by (simp add: list_all2_same)
  with Cons step[of c] show ?case
    by (auto split: prod.splits sum.splits)
qed



lemma handle_currencies_state:
  "snd (handle_currencies fetch cs) = cs \<or>
   (\<exists>api. fetch (map c_char_code cs) = Inr api \<and> snd (handle_currencies fetch cs) = snd (update_all api cs))"
  by (auto simp: handle_currencies_def static_page_state split: sum.splits prod.splits)

lemma handle_currencies_rel:
  assumes step: "\<And>api c. R c (snd (update_one api c))" and refl: "\<And>c. R c c"
  shows "list_all2 R cs (snd (handle_currencies fetch cs))"
proof -
  have same: "list_all2 R cs cs" using refl by (simp add: list_all2_same)
  from handle_currencies_state[of fetch cs] show ?thesis
  proof
    assume "snd (handle_currencies fetch cs) = cs"
    with same show ?thesis by simp
  next
    assume "\<exists>api. fetch (map c_char_code cs) = Inr api
        \<and> snd (handle_currencies fetch cs) = snd (update_all api cs)"
    then obtain api where "snd (handle_currencies fetch cs) = snd (update_all api cs)" by blast
    with update_all_rel[of R api cs, OF step refl] show ?thesis by simp
  qed
qed

lemma list_all2_map_eq: "list_all2 (\<lambda>x y. f y = f x) xs ys \<Longrightarrow> map f ys = map f xs"
  by (induction xs ys rule: list_all2_induct) simp_all





text \<open>
  Claim C7. Whatever the feed client does, the currencies page leaves the collection
  with the same objects in the same order, each with its \<open>id\<close>, numeric code, symbolic
  code, name and nominal unchanged. When the call of the feed client raises, the
  collection is unchanged altogether: the feed client has touched no object.
\<close>

theorem refresh_frame:
  "map c_id (snd (handle_currencies fetch cs)) = map c_id cs
   \<and> map c_num_code (snd (handle_currencies fetch cs)) = map c_num_code cs
   \<and> map c_char_code (snd (handle_currencies fetch cs)) = map c_char_code cs
   \<and> map c_name (snd (handle_currencies fetch cs)) = map c_name cs
   \<and> map c_nominal (snd (handle_currencies fetch cs)) = map c_nominal cs
   \<and> (fetch (map c_char_code cs) = Inl e \<longrightarrow> snd (handle_currencies fetch cs) = cs)"
proof -
  have keep: "list_all2 (\<lambda>c c'. f c' = f c) cs (snd (handle_currencies fetch cs))"
    if "\<And>api c. f (snd (update_one api c)) = f c" for f :: "currency \<Rightarrow> 'b"
    by (rule handle_currencies_rel) (simp_all add: that)
  have "fetch (map c_char_code cs) = Inl e \<longrightarrow> snd (handle_currencies fetch cs) = cs"
    by (simp add: handle_currencies_def static_page_state)
  with keep[of c_id, THEN list_all2_map_eq] keep[of c_num_code, THEN list_all2_map_eq]
    keep[of c_char_code, THEN list_all2_map_eq] keep[of c_name, THEN list_all2_map_eq]
    keep[of c_nominal, THEN list_all2_map_eq]
  show ?thesis by (simp add: update_one_frame)
qed

text \<open>The seed dollar and yen, with a feed client that times out and with one that returns a rate for the dollar.\<close>

theorem refresh_frame_witness:
  "snd (handle_currencies (\<lambda>codes. Inl timed_out) [usd, jpy]) = [usd, jpy]
   \<and> map c_nominal (snd (handle_currencies (\<lambda>codes. Inr [(''USD'', PFloat (921 / 10))]) [usd, jpy]))
       = [1, 100]"
proof -
  have f: "(\<lambda>codes. Inl timed_out :: exn + pydict) (map c_char_code [usd, jpy]) = Inl timed_out"
    by simp
  from refresh_frame[where fetch = "\<lambda>codes. Inl timed_out" and e = timed_out and cs = "[usd, jpy]"] f
  have 1: "snd (handle_currencies (\<lambda>codes. Inl timed_out) [usd, jpy]) = [usd, jpy]"
    by blast
  from refresh_frame[where fetch = "\<lambda>codes. Inr [(''USD'', PFloat (921 / 10))]" and cs = "[usd, jpy]"]
  have "map c_nominal (snd (handle_currencies (\<lambda>codes. Inr [(''USD'', PFloat (921 / 10))]) [usd, jpy]))
       = map c_nominal [usd, jpy]"
    by blast
  then have 2: "map c_nominal (snd (handle_currencies (\<lambda>codes. Inr [(''USD'', PFloat (921 / 10))]) [usd, jpy]))
       = [1, 100]"
    by (simp add: usd_def jpy_def)
  from 1 2 show ?thesis by blast
qed





end
